theory Spec2Isabelle
  imports Main
begin

section \<open>Values of the host language\<close>

text \<open>
  The middleware handles untyped request data, Joi option records and error payloads.
  They are JavaScript values; an object literal is an association list, so that the keys
  an object owns stay visible even where the value stored under a key is \<open>undefined\<close>.
  A \<open>Joi.ValidationError\<close> is the list of its violation records.
\<close>

datatype violation = Violation (path: string) (msg: string)

type_synonym ValidationError = "violation list"

datatype jsval =
    JUndefined
  | JBool bool
  | JNum int
  | JStr string
  | JObj "(string \<times> jsval) list"
  | JError ValidationError

type_synonym jsobject = "(string \<times> jsval) list"

text \<open>Reading a property \<open>o.k\<close> of an object: a key the object lacks reads as \<open>undefined\<close>.\<close>

definition getProp :: "jsobject \<Rightarrow> string \<Rightarrow> jsval" where
  "getProp ob k = (case map_of ob k of None \<Rightarrow> JUndefined | Some v \<Rightarrow> v)"

text \<open>The keys an object owns (\<open>Object.keys\<close>), and the test \<open>k in o\<close>.\<close>

definition ownKeys :: "jsval \<Rightarrow> string list" where
  "ownKeys v = (case v of JObj kvs \<Rightarrow> map fst kvs | _ \<Rightarrow> [])"

definition hasOwn :: "jsval \<Rightarrow> string \<Rightarrow> bool" where
  "hasOwn v k = (k \<in> set (ownKeys v))"

text \<open>The truth value of a condition \<open>if (v)\<close>, \<open>a || b\<close>.\<close>

fun truthy :: "jsval \<Rightarrow> bool" where
  "truthy JUndefined = False"
| "truthy (JBool b) = b"
| "truthy (JNum n) = (n \<noteq> 0)"
| "truthy (JStr s) = (s \<noteq> [])"
| "truthy (JObj kvs) = True"
| "truthy (JError d) = True"

text \<open>A value of type \<open>Joi.ValidationError | undefined\<close>, stored in an object.\<close>

fun of_error :: "ValidationError option \<Rightarrow> jsval" where
  "of_error None = JUndefined"
| "of_error (Some d) = JError d"

section \<open>The validation engine's interface\<close>

text \<open>
  \<open>Partial<Joi.ValidationOptions>\<close>: a record all of whose fields are optional, as a map
  from the field's name. A parameter declared \<open>joiValidationOptions?\<close> is an
  \<open>option\<close> of it.
\<close>

type_synonym ValidationOptions = "string \<rightharpoonup> jsval"

text \<open>
  \<open>Joi.ValidationResult\<close>: the engine's answer, whose \<open>error\<close> is undefined when the
  value is valid, and whose second component is the converted value.
\<close>

record ValidationResult =
  error :: "ValidationError option"
  converted :: jsval

text \<open>
  A \<open>Joi.ObjectSchema\<close> is opaque to the middleware, which only calls
  \<open>schema.validate(value, options)\<close>: a schema is that method, an arbitrary function.
\<close>

type_synonym ObjectSchema = "jsval \<Rightarrow> ValidationOptions option \<Rightarrow> ValidationResult"

text \<open>The object spread \<open>{ ...a, ...b }\<close> where \<open>b\<close> may be undefined.\<close>

definition spread :: "ValidationOptions \<Rightarrow> ValidationOptions option \<Rightarrow> ValidationOptions" where
  "spread a b = (case b of None \<Rightarrow> a | Some ov \<Rightarrow> a ++ ov)"

section \<open>Requests, schema sets and the continuation\<close>

record Request =
  body :: jsval
  cookies :: jsval
  headers :: jsval
  params :: jsval
  query :: jsval

text \<open>\<open>IValidateAllSchema\<close>: every section's schema is optional.\<close>

record IValidateAllSchema =
  body_schema :: "ObjectSchema option"
  cookies_schema :: "ObjectSchema option"
  headers_schema :: "ObjectSchema option"
  params_schema :: "ObjectSchema option"
  query_schema :: "ObjectSchema option"

text \<open>
  \<open>RequestValidationMiddlewareError\<close> extends \<open>BaseError\<close>. Its fields are those the
  constructor sets.
\<close>

record MiddlewareError =
  category :: string
  message :: string
  statusCode :: jsval
  errors :: jsval

text \<open>
  Modelled from the spec: the enumerations \<open>ErrorSource\<close> and \<open>HttpStatusCode\<close> and the
  class \<open>BaseError\<close> are imported by \<open>RequestValidationMiddlewareError.ts\<close> and are not
  among the sources. The spec fixes the category to "validation" and the status code to
  400, and has the error carry its category and its message.
\<close>

definition ErrorSource_VALIDATION :: string where
  "ErrorSource_VALIDATION = ''validation''"

definition HttpStatusCode_BAD_REQUEST :: int where
  "HttpStatusCode_BAD_REQUEST = 400"

definition BaseError :: "string \<Rightarrow> string \<Rightarrow> MiddlewareError" where
  "BaseError src m = \<lparr>category = src, message = m, statusCode = JUndefined, errors = JUndefined\<rparr>"

text \<open>\<open>RequestValidationMiddlewareError.ts\<close>, the constructor.\<close>

definition RequestValidationMiddlewareError :: "jsval \<Rightarrow> MiddlewareError" where
  "RequestValidationMiddlewareError errs =
     (let this = BaseError ErrorSource_VALIDATION ''Bad Request'';
          this = this\<lparr>statusCode := JNum HttpStatusCode_BAD_REQUEST\<rparr>;
          this = this\<lparr>errors := errs\<rparr>
      in this)"

text \<open>
  One run of a pipeline step: the request the step was given, and the calls of the
  continuation \<open>next\<close> made so far, oldest first. \<open>next()\<close> is \<open>None\<close>,
  \<open>next(err)\<close> is \<open>Some err\<close>.
\<close>

record exchange =
  req :: Request
  calls :: "MiddlewareError option list"

definition call_next :: "MiddlewareError option \<Rightarrow> exchange \<Rightarrow> exchange" where
  "call_next e x = x\<lparr>calls := calls x @ [e]\<rparr>"

text \<open>The calls of the continuation a step made: those after the ones already there.\<close>

definition delivered :: "exchange \<Rightarrow> exchange \<Rightarrow> MiddlewareError option list" where
  "delivered x x' = drop (length (calls x)) (calls x')"

section \<open>\<open>ValidatorBase.ts\<close>\<close>

text \<open>
  The functions with an optional \<open>joiValidationOptions\<close> parameter. The file also holds an
  earlier revision of the same functions, without that parameter, in which every
  validator, \<open>validateAll\<close> included, gives the engine \<open>commonValidatorOptions\<close>.
\<close>

definition commonValidatorOptions :: ValidationOptions where
  "commonValidatorOptions = [''abortEarly'' \<mapsto> JBool False]"

definition getBodyValidationErrors ::
  "ObjectSchema \<Rightarrow> jsval \<Rightarrow> ValidationOptions option \<Rightarrow> ValidationError option" where
  "getBodyValidationErrors validatorSchema b joiValidationOptions =
     error (validatorSchema b joiValidationOptions)"

definition validateBody :: "ObjectSchema \<Rightarrow> ValidationOptions option \<Rightarrow> exchange \<Rightarrow> exchange" where
  "validateBody validatorSchema joiValidationOptions x =
     (let b = body (req x);
          validationErrors = getBodyValidationErrors validatorSchema b
            (Some (spread commonValidatorOptions joiValidationOptions));
          err = JObj [(''body'', of_error validationErrors)]
      in if validationErrors \<noteq> None
         then call_next (Some (RequestValidationMiddlewareError err)) x
         else call_next None x)"

definition getCookiesValidationErrors ::
  "ObjectSchema \<Rightarrow> jsval \<Rightarrow> ValidationOptions option \<Rightarrow> ValidationError option" where
  "getCookiesValidationErrors validatorSchema c joiValidationOptions =
     error (validatorSchema c joiValidationOptions)"

definition validateCookies :: "ObjectSchema \<Rightarrow> ValidationOptions option \<Rightarrow> exchange \<Rightarrow> exchange" where
  "validateCookies validatorSchema joiValidationOptions x =
     (let c = cookies (req x);
          validationErrors = getCookiesValidationErrors validatorSchema c
            (Some (spread commonValidatorOptions joiValidationOptions));
          err = JObj [(''cookies'', of_error validationErrors)]
      in if validationErrors \<noteq> None
         then call_next (Some (RequestValidationMiddlewareError err)) x
         else call_next None x)"

definition getHeadersValidationErrors ::
  "ObjectSchema \<Rightarrow> jsval \<Rightarrow> ValidationOptions option \<Rightarrow> ValidationError option" where
  "getHeadersValidationErrors validatorSchema h joiValidationOptions =
     error (validatorSchema h joiValidationOptions)"

definition validateHeaders :: "ObjectSchema \<Rightarrow> ValidationOptions option \<Rightarrow> exchange \<Rightarrow> exchange" where
  "validateHeaders validatorSchema joiValidationOptions x =
     (let h = headers (req x);
          validationErrors = getHeadersValidationErrors validatorSchema h
            (Some (spread commonValidatorOptions joiValidationOptions));
          err = JObj [(''headers'', of_error validationErrors)]
      in if validationErrors \<noteq> None
         then call_next (Some (RequestValidationMiddlewareError err)) x
         else call_next None x)"

definition getParamsValidationErrors ::
  "ObjectSchema \<Rightarrow> jsval \<Rightarrow> ValidationOptions option \<Rightarrow> ValidationError option" where
  "getParamsValidationErrors validatorSchema p joiValidationOptions =
     error (validatorSchema p joiValidationOptions)"

definition validateParams :: "ObjectSchema \<Rightarrow> ValidationOptions option \<Rightarrow> exchange \<Rightarrow> exchange" where
  "validateParams validatorSchema joiValidationOptions x =
     (let p = params (req x);
          validationErrors = getParamsValidationErrors validatorSchema p
            (Some (spread commonValidatorOptions joiValidationOptions));
          err = JObj [(''params'', of_error validationErrors)]
      in if validationErrors \<noteq> None
         then call_next (Some (RequestValidationMiddlewareError err)) x
         else call_next None x)"

definition getQueryValidationErrors ::
  "ObjectSchema \<Rightarrow> jsval \<Rightarrow> ValidationOptions option \<Rightarrow> ValidationError option" where
  "getQueryValidationErrors validatorSchema q joiValidationOptions =
     error (validatorSchema q joiValidationOptions)"

definition validateQuery :: "ObjectSchema \<Rightarrow> ValidationOptions option \<Rightarrow> exchange \<Rightarrow> exchange" where
  "validateQuery validatorSchema joiValidationOptions x =
     (let q = query (req x);
          validationErrors = getQueryValidationErrors validatorSchema q
            (Some (spread commonValidatorOptions joiValidationOptions));
          err = JObj [(''query'', of_error validationErrors)]
      in if validationErrors \<noteq> None
         then call_next (Some (RequestValidationMiddlewareError err)) x
         else call_next None x)"

text \<open>
  The optional chain \<open>schema?.validate(value, options).error\<close>: undefined when the
  schema is, without calling the engine.
\<close>

definition validate_opt ::
  "ObjectSchema option \<Rightarrow> jsval \<Rightarrow> ValidationOptions option \<Rightarrow> ValidationError option" where
  "validate_opt s v opts = (case s of None \<Rightarrow> None | Some sch \<Rightarrow> error (sch v opts))"

definition getAllValidationErrors ::
  "IValidateAllSchema \<Rightarrow> Request \<Rightarrow> ValidationOptions option \<Rightarrow> jsobject option" where
  "getAllValidationErrors validatorSchema request joiValidationOptions =
     (let validateAllResponse =
        [(''body'', of_error (validate_opt (body_schema validatorSchema) (body request) joiValidationOptions)),
         (''cookies'', of_error (validate_opt (cookies_schema validatorSchema) (cookies request) joiValidationOptions)),
         (''headers'', of_error (validate_opt (headers_schema validatorSchema) (headers request) joiValidationOptions)),
         (''params'', of_error (validate_opt (params_schema validatorSchema) (params request) joiValidationOptions)),
         (''query'', of_error (validate_opt (query_schema validatorSchema) (query request) joiValidationOptions))]
      in if truthy (getProp validateAllResponse ''body'')
            \<or> truthy (getProp validateAllResponse ''cookies'')
            \<or> truthy (getProp validateAllResponse ''headers'')
            \<or> truthy (getProp validateAllResponse ''params'')
            \<or> truthy (getProp validateAllResponse ''query'')
         then Some validateAllResponse
         else None)"

text \<open>
  \<open>validateAll\<close> hands its \<open>joiValidationOptions\<close> to \<open>getAllValidationErrors\<close> as they
  are: \<open>commonValidatorOptions\<close> is not spread into them here.
\<close>

definition validateAll :: "IValidateAllSchema \<Rightarrow> ValidationOptions option \<Rightarrow> exchange \<Rightarrow> exchange" where
  "validateAll validatorSchema joiValidationOptions x =
     (let validateAllResponse = getAllValidationErrors validatorSchema (req x) joiValidationOptions
      in case validateAllResponse of
           Some r \<Rightarrow> call_next (Some (RequestValidationMiddlewareError (JObj r))) x
         | None \<Rightarrow> call_next None x)"

section \<open>The class \<open>RequestValidator\<close>\<close>

text \<open>
  The class keeps two option records. Its methods are functions of the instance
  \<open>this\<close>.
\<close>

record RequestValidator =
  defaultValidationOptions :: ValidationOptions
  commonValidationOptions :: ValidationOptions

definition RequestValidator_new :: "ValidationOptions option \<Rightarrow> RequestValidator" where
  "RequestValidator_new joiValidationOptions =
     (let dflt = [''abortEarly'' \<mapsto> JBool False]
      in \<lparr>defaultValidationOptions = dflt,
          commonValidationOptions =
            (case joiValidationOptions of
               Some ov \<Rightarrow> spread dflt (Some ov)
             | None \<Rightarrow> dflt)\<rparr>)"

definition RequestValidator_getBodyValidationErrors ::
  "ObjectSchema \<Rightarrow> jsval \<Rightarrow> ValidationOptions option \<Rightarrow> ValidationError option" where
  "RequestValidator_getBodyValidationErrors validatorSchema b bodyValidationOptions =
     error (validatorSchema b bodyValidationOptions)"

definition RequestValidator_validateBody ::
  "RequestValidator \<Rightarrow> ObjectSchema \<Rightarrow> ValidationOptions option \<Rightarrow> exchange \<Rightarrow> exchange" where
  "RequestValidator_validateBody this validatorSchema bodyValidationOptions x =
     (let b = body (req x);
          validationErrors = RequestValidator_getBodyValidationErrors validatorSchema b
            (Some (spread (commonValidationOptions this) bodyValidationOptions));
          err = JObj [(''body'', of_error validationErrors)]
      in if validationErrors \<noteq> None
         then call_next (Some (RequestValidationMiddlewareError err)) x
         else call_next None x)"

definition RequestValidator_getCookiesValidationErrors ::
  "ObjectSchema \<Rightarrow> jsval \<Rightarrow> ValidationOptions option \<Rightarrow> ValidationError option" where
  "RequestValidator_getCookiesValidationErrors validatorSchema c cookiesValidationOptions =
     error (validatorSchema c cookiesValidationOptions)"

definition RequestValidator_validateCookies ::
  "RequestValidator \<Rightarrow> ObjectSchema \<Rightarrow> ValidationOptions option \<Rightarrow> exchange \<Rightarrow> exchange" where
  "RequestValidator_validateCookies this validatorSchema cookiesValidationOptions x =
     (let c = cookies (req x);
          validationErrors = RequestValidator_getCookiesValidationErrors validatorSchema c
            (Some (spread (commonValidationOptions this) cookiesValidationOptions));
          err = JObj [(''cookies'', of_error validationErrors)]
      in if validationErrors \<noteq> None
         then call_next (Some (RequestValidationMiddlewareError err)) x
         else call_next None x)"

definition RequestValidator_getQueryValidationErrors ::
  "ObjectSchema \<Rightarrow> jsval \<Rightarrow> ValidationOptions option \<Rightarrow> ValidationError option" where
  "RequestValidator_getQueryValidationErrors validatorSchema q queryValidationOptions =
     error (validatorSchema q queryValidationOptions)"

definition RequestValidator_validateQuery ::
  "RequestValidator \<Rightarrow> ObjectSchema \<Rightarrow> ValidationOptions option \<Rightarrow> exchange \<Rightarrow> exchange" where
  "RequestValidator_validateQuery this validatorSchema queryValidationOptions x =
     (let q = query (req x);
          validationErrors = RequestValidator_getQueryValidationErrors validatorSchema q
            (Some (spread (commonValidationOptions this) queryValidationOptions));
          err = JObj [(''query'', of_error validationErrors)]
      in if validationErrors \<noteq> None
         then call_next (Some (RequestValidationMiddlewareError err)) x
         else call_next None x)"

definition RequestValidator_getParamsValidationErrors ::
  "ObjectSchema \<Rightarrow> jsval \<Rightarrow> ValidationOptions option \<Rightarrow> ValidationError option" where
  "RequestValidator_getParamsValidationErrors validatorSchema p paramsValidationOptions =
     error (validatorSchema p paramsValidationOptions)"

definition RequestValidator_validateParams ::
  "RequestValidator \<Rightarrow> ObjectSchema \<Rightarrow> ValidationOptions option \<Rightarrow> exchange \<Rightarrow> exchange" where
  "RequestValidator_validateParams this validatorSchema paramsValidationOptions x =
     (let p = params (req x);
          validationErrors = RequestValidator_getParamsValidationErrors validatorSchema p
            (Some (spread (commonValidationOptions this) paramsValidationOptions));
          err = JObj [(''params'', of_error validationErrors)]
      in if validationErrors \<noteq> None
         then call_next (Some (RequestValidationMiddlewareError err)) x
         else call_next None x)"

definition RequestValidator_getHeadersValidationErrors ::
  "ObjectSchema \<Rightarrow> jsval \<Rightarrow> ValidationOptions option \<Rightarrow> ValidationError option" where
  "RequestValidator_getHeadersValidationErrors validatorSchema h headersValidationOptions =
     error (validatorSchema h headersValidationOptions)"

definition RequestValidator_validateHeaders ::
  "RequestValidator \<Rightarrow> ObjectSchema \<Rightarrow> ValidationOptions option \<Rightarrow> exchange \<Rightarrow> exchange" where
  "RequestValidator_validateHeaders this validatorSchema headersValidationOptions x =
     (let h = headers (req x);
          validationErrors = RequestValidator_getHeadersValidationErrors validatorSchema h
            (Some (spread (commonValidationOptions this) headersValidationOptions));
          err = JObj [(''headers'', of_error validationErrors)]
      in if validationErrors \<noteq> None
         then call_next (Some (RequestValidationMiddlewareError err)) x
         else call_next None x)"

definition RequestValidator_getAllValidationErrors ::
  "IValidateAllSchema \<Rightarrow> Request \<Rightarrow> ValidationOptions option \<Rightarrow> jsobject option" where
  "RequestValidator_getAllValidationErrors validatorSchema request allValidationOptions =
     (let validateAllResponse =
        [(''body'', of_error (validate_opt (body_schema validatorSchema) (body request) allValidationOptions)),
         (''cookies'', of_error (validate_opt (cookies_schema validatorSchema) (cookies request) allValidationOptions)),
         (''headers'', of_error (validate_opt (headers_schema validatorSchema) (headers request) allValidationOptions)),
         (''params'', of_error (validate_opt (params_schema validatorSchema) (params request) allValidationOptions)),
         (''query'', of_error (validate_opt (query_schema validatorSchema) (query request) allValidationOptions))]
      in if truthy (getProp validateAllResponse ''body'')
            \<or> truthy (getProp validateAllResponse ''cookies'')
            \<or> truthy (getProp validateAllResponse ''headers'')
            \<or> truthy (getProp validateAllResponse ''params'')
            \<or> truthy (getProp validateAllResponse ''query'')
         then Some validateAllResponse
         else None)"

text \<open>The method \<open>validateAll\<close> does spread the instance's common options.\<close>

definition RequestValidator_validateAll ::
  "RequestValidator \<Rightarrow> IValidateAllSchema \<Rightarrow> ValidationOptions option \<Rightarrow> exchange \<Rightarrow> exchange" where
  "RequestValidator_validateAll this validatorSchema allValidationOptions x =
     (let validateAllResponse = RequestValidator_getAllValidationErrors validatorSchema (req x)
            (Some (spread (commonValidationOptions this) allValidationOptions))
      in case validateAllResponse of
           Some r \<Rightarrow> call_next (Some (RequestValidationMiddlewareError (JObj r))) x
         | None \<Rightarrow> call_next None x)"

section \<open>Sections, by name\<close>

text \<open>
  The five sections of a request, to state a property of all five validators at once:
  the name under which a section's diagnostics are stored, the value a validator reads,
  the schema a schema set holds for it, and the validator exported for it.
\<close>

datatype reqSection = Body | Cookies | Headers | Params | Query

definition allSections :: "reqSection list" where
  "allSections = [Body, Cookies, Headers, Params, Query]"

fun sectionName :: "reqSection \<Rightarrow> string" where
  "sectionName Body = ''body''"
| "sectionName Cookies = ''cookies''"
| "sectionName Headers = ''headers''"
| "sectionName Params = ''params''"
| "sectionName Query = ''query''"

fun sectionOf :: "Request \<Rightarrow> reqSection \<Rightarrow> jsval" where
  "sectionOf r Body = body r"
| "sectionOf r Cookies = cookies r"
| "sectionOf r Headers = headers r"
| "sectionOf r Params = params r"
| "sectionOf r Query = query r"

fun schemaOf :: "IValidateAllSchema \<Rightarrow> reqSection \<Rightarrow> ObjectSchema option" where
  "schemaOf S Body = body_schema S"
| "schemaOf S Cookies = cookies_schema S"
| "schemaOf S Headers = headers_schema S"
| "schemaOf S Params = params_schema S"
| "schemaOf S Query = query_schema S"

fun validatorFor ::
  "reqSection \<Rightarrow> ObjectSchema \<Rightarrow> ValidationOptions option \<Rightarrow> exchange \<Rightarrow> exchange" where
  "validatorFor Body = validateBody"
| "validatorFor Cookies = validateCookies"
| "validatorFor Headers = validateHeaders"
| "validatorFor Params = validateParams"
| "validatorFor Query = validateQuery"

fun RequestValidator_validatorFor ::
  "RequestValidator \<Rightarrow> reqSection \<Rightarrow> ObjectSchema \<Rightarrow> ValidationOptions option \<Rightarrow> exchange \<Rightarrow> exchange" where
  "RequestValidator_validatorFor this Body = RequestValidator_validateBody this"
| "RequestValidator_validatorFor this Cookies = RequestValidator_validateCookies this"
| "RequestValidator_validatorFor this Headers = RequestValidator_validateHeaders this"
| "RequestValidator_validatorFor this Params = RequestValidator_validateParams this"
| "RequestValidator_validatorFor this Query = RequestValidator_validateQuery this"

text \<open>What a section's schema, if there is one, reports on the request's value for it.\<close>

definition sectionError ::
  "IValidateAllSchema \<Rightarrow> ValidationOptions option \<Rightarrow> Request \<Rightarrow> reqSection \<Rightarrow> ValidationError option" where
  "sectionError S opts r s = validate_opt (schemaOf S s) (sectionOf r s) opts"

text \<open>The payloads of the calls a step made: \<open>None\<close> for a call without an error.\<close>

definition payloads :: "exchange \<Rightarrow> exchange \<Rightarrow> jsval option list" where
  "payloads x x' = map (map_option errors) (delivered x x')"

section \<open>Sample schemas and requests\<close>

text \<open>
  Joi is outside the repository. To run the validators on concrete inputs, here is a
  schema of the kind \<open>Joi.object({ k: Joi.any().required(), ... })\<close> builds: it reports
  one violation for each required key the value lacks, in the order of the keys, and
  only the first of them when \<open>abortEarly\<close> holds. Joi's own default for \<open>abortEarly\<close>,
  which applies when no options or no such field are given, is true.
\<close>

definition abortEarly_of :: "ValidationOptions option \<Rightarrow> bool" where
  "abortEarly_of opts =
     (case opts of
        None \<Rightarrow> True
      | Some ov \<Rightarrow> (case ov ''abortEarly'' of Some (JBool b) \<Rightarrow> b | _ \<Rightarrow> True))"

definition requireKeys :: "string list \<Rightarrow> ObjectSchema" where
  "requireKeys ks v opts =
     (let details = map (\<lambda>k. Violation k ''is required'') (filter (\<lambda>k. \<not> hasOwn v k) ks)
      in \<lparr>error = (if details = [] then None
                   else Some (if abortEarly_of opts then take 1 details else details)),
          converted = v\<rparr>)"

text \<open>A schema that accepts every value and converts it to the number 5.\<close>

definition toFive :: ObjectSchema where
  "toFive v opts = \<lparr>error = None, converted = JNum 5\<rparr>"

definition emptyRequest :: Request where
  "emptyRequest = \<lparr>body = JObj [], cookies = JObj [], headers = JObj [], params = JObj [],
     query = JObj []\<rparr>"

definition start :: "Request \<Rightarrow> exchange" where
  "start r = \<lparr>req = r, calls = []\<rparr>"

definition noSchemas :: IValidateAllSchema where
  "noSchemas = \<lparr>body_schema = None, cookies_schema = None, headers_schema = None,
     params_schema = None, query_schema = None\<rparr>"

text \<open>
  A schema set for three of the five sections. On \<open>emptyRequest\<close> the body lacks two
  required keys, the cookies lack one, and the headers pass.
\<close>

definition sampleSchemas :: IValidateAllSchema where
  "sampleSchemas = \<lparr>body_schema = Some (requireKeys [''a'', ''b'']),
     cookies_schema = Some (requireKeys [''c'']), headers_schema = Some (requireKeys []),
     params_schema = None, query_schema = None\<rparr>"

section \<open>What one step does\<close>

text \<open>
  Each validator ends in exactly one call of the continuation, whose argument is decided
  by what the engine reports. The lemmas of this section put every validator in that
  form; the properties below follow from it.
\<close>

lemma validatorFor_step:
  "validatorFor s sch ov x =
     call_next (map_option (\<lambda>d. RequestValidationMiddlewareError (JObj [(sectionName s, JError d)]))
        (error (sch (sectionOf (req x) s) (Some (spread commonValidatorOptions ov))))) x"
  by (cases s; cases "error (sch (sectionOf (req x) s) (Some (spread commonValidatorOptions ov)))")
     (simp_all add: validateBody_def validateCookies_def validateHeaders_def validateParams_def
        validateQuery_def getBodyValidationErrors_def getCookiesValidationErrors_def
        getHeadersValidationErrors_def getParamsValidationErrors_def getQueryValidationErrors_def
        Let_def)

lemma RequestValidator_validatorFor_step:
  "RequestValidator_validatorFor this s sch ov x =
     call_next (map_option (\<lambda>d. RequestValidationMiddlewareError (JObj [(sectionName s, JError d)]))
        (error (sch (sectionOf (req x) s) (Some (spread (commonValidationOptions this) ov))))) x"
  by (cases s; cases "error (sch (sectionOf (req x) s) (Some (spread (commonValidationOptions this) ov)))")
     (simp_all add: RequestValidator_validateBody_def RequestValidator_validateCookies_def
        RequestValidator_validateHeaders_def RequestValidator_validateParams_def
        RequestValidator_validateQuery_def RequestValidator_getBodyValidationErrors_def
        RequestValidator_getCookiesValidationErrors_def
        RequestValidator_getHeadersValidationErrors_def
        RequestValidator_getParamsValidationErrors_def
        RequestValidator_getQueryValidationErrors_def Let_def)

lemma truthy_of_error: "truthy (of_error e) = (e \<noteq> None)"
  by (cases e) simp_all

lemma set_allSections: "set allSections = UNIV"
proof -
  have "s \<in> set allSections" for s
    by (cases s) (simp_all add: allSections_def)
  then show ?thesis by blast
qed

lemma getAllValidationErrors_eq:
  "getAllValidationErrors S r opts =
     (if list_ex (\<lambda>s. sectionError S opts r s \<noteq> None) allSections
      then Some (map (\<lambda>s. (sectionName s, of_error (sectionError S opts r s))) allSections)
      else None)"
  by (simp add: getAllValidationErrors_def Let_def getProp_def truthy_of_error allSections_def
        sectionError_def)

lemma RequestValidator_getAllValidationErrors_eq:
  "RequestValidator_getAllValidationErrors S r opts = getAllValidationErrors S r opts"
  by (simp add: getAllValidationErrors_def RequestValidator_getAllValidationErrors_def)

lemma getAllValidationErrors_None:
  "(getAllValidationErrors S r opts = None) = (\<forall>s. sectionError S opts r s = None)"
proof -
  have "list_ex (\<lambda>s. sectionError S opts r s \<noteq> None) allSections
          = (\<exists>s. sectionError S opts r s \<noteq> None)"
    by (simp add: list_ex_iff set_allSections)
  then show ?thesis
    by (simp add: getAllValidationErrors_eq)
qed

lemma validateAll_step:
  "validateAll S ov x =
     call_next (map_option (\<lambda>r. RequestValidationMiddlewareError (JObj r))
        (getAllValidationErrors S (req x) ov)) x"
  by (cases "getAllValidationErrors S (req x) ov") (simp_all add: validateAll_def)

lemma RequestValidator_validateAll_step:
  "RequestValidator_validateAll this S ov x =
     call_next (map_option (\<lambda>r. RequestValidationMiddlewareError (JObj r))
        (getAllValidationErrors S (req x) (Some (spread (commonValidationOptions this) ov)))) x"
  by (cases "getAllValidationErrors S (req x) (Some (spread (commonValidationOptions this) ov))")
     (simp_all add: RequestValidator_validateAll_def RequestValidator_getAllValidationErrors_eq)

lemma delivered_call_next: "delivered x (call_next e x) = [e]"
  by (simp add: delivered_def call_next_def)

lemma req_call_next: "req (call_next e x) = req x"
  by (simp add: call_next_def)

lemma calls_call_next: "calls (call_next e x) = calls x @ [e]"
  by (simp add: call_next_def)

lemma sectionError_Some:
  "(sectionError S opts r s \<noteq> None) =
     (\<exists>sch. schemaOf S s = Some sch \<and> error (sch (sectionOf r s) opts) \<noteq> None)"
  by (cases "schemaOf S s") (simp_all add: sectionError_def validate_opt_def)

lemma member_singleton_map_option:
  "(Some e \<in> set [map_option f v]) = (\<exists>d. v = Some d \<and> e = f d)"
  by (cases v) auto

lemma RequestValidationMiddlewareError_fields:
  "category (RequestValidationMiddlewareError p) = ''validation''"
  "message (RequestValidationMiddlewareError p) = ''Bad Request''"
  "statusCode (RequestValidationMiddlewareError p) = JNum 400"
  "errors (RequestValidationMiddlewareError p) = p"
  by (simp_all add: RequestValidationMiddlewareError_def BaseError_def ErrorSource_VALIDATION_def
        HttpStatusCode_BAD_REQUEST_def)

lemma payloads_call_next: "payloads x (call_next e x) = [map_option errors e]"
  by (simp add: payloads_def delivered_call_next)

lemma getProp_sections:
  "getProp (map (\<lambda>s. (sectionName s, f s)) allSections) (sectionName s) = f s"
  by (cases s) (simp_all add: allSections_def getProp_def)

lemma aggregate_payload:
  assumes "sectionError S opts r a = Some da"
  shows "getAllValidationErrors S r opts
    = Some (map (\<lambda>s. (sectionName s, of_error (sectionError S opts r s))) allSections)"
proof -
  have "a \<in> set allSections"
    by (simp add: set_allSections)
  with assms have "list_ex (\<lambda>s. sectionError S opts r s \<noteq> None) allSections"
    unfolding list_ex_iff by force
  then show ?thesis
    by (simp add: getAllValidationErrors_eq)
qed

lemma aggregate_entries_of:
  assumes a: "schemaOf S a = Some sa" "error (sa (sectionOf r a) opts) = Some da"
    and b: "schemaOf S b = Some sb" "error (sb (sectionOf r b) opts) = Some db"
  shows "\<exists>p. getAllValidationErrors S r opts = Some p
           \<and> getProp p (sectionName a) = JError da \<and> getProp p (sectionName b) = JError db
           \<and> (\<forall>c sc. schemaOf S c = Some sc \<and> error (sc (sectionOf r c) opts) = None
                \<longrightarrow> getProp p (sectionName c) = JUndefined \<and> hasOwn (JObj p) (sectionName c))
           \<and> (\<forall>d. schemaOf S d = None
                \<longrightarrow> getProp p (sectionName d) = JUndefined \<and> hasOwn (JObj p) (sectionName d))"
proof -
  let ?p = "map (\<lambda>s. (sectionName s, of_error (sectionError S opts r s))) allSections"
  have ea: "sectionError S opts r a = Some da" and eb: "sectionError S opts r b = Some db"
    using a b by (simp_all add: sectionError_def validate_opt_def)
  have ec: "sectionError S opts r c = None"
    if "schemaOf S c = Some sc" "error (sc (sectionOf r c) opts) = None" for c sc
    using that by (simp add: sectionError_def validate_opt_def)
  have ed: "sectionError S opts r d = None" if "schemaOf S d = None" for d
    using that by (simp add: sectionError_def validate_opt_def)
  have keys: "hasOwn (JObj ?p) (sectionName s)" for s
    by (simp add: hasOwn_def ownKeys_def set_allSections comp_def)
  have "getAllValidationErrors S r opts = Some ?p"
    by (rule aggregate_payload [OF ea])
  moreover have "getProp ?p (sectionName a) = JError da" "getProp ?p (sectionName b) = JError db"
    by (simp_all add: getProp_sections ea eb)
  moreover have "\<forall>c sc. schemaOf S c = Some sc \<and> error (sc (sectionOf r c) opts) = None
      \<longrightarrow> getProp ?p (sectionName c) = JUndefined \<and> hasOwn (JObj ?p) (sectionName c)"
    using keys by (simp add: getProp_sections ec)
  moreover have "\<forall>d. schemaOf S d = None
      \<longrightarrow> getProp ?p (sectionName d) = JUndefined \<and> hasOwn (JObj ?p) (sectionName d)"
    using keys by (simp add: getProp_sections ed)
  ultimately show ?thesis
    by blast
qed

subsection \<open>Evaluation at concrete inputs\<close>

text \<open>The definitions to unfold when a validator is run on a sample request.\<close>

lemmas sample_defs = requireKeys_def toFive_def start_def emptyRequest_def noSchemas_def
  hasOwn_def ownKeys_def abortEarly_of_def spread_def commonValidatorOptions_def Let_def

lemmas run_defs = validateAll_def getAllValidationErrors_def RequestValidator_validateAll_def
  RequestValidator_getAllValidationErrors_def RequestValidator_new_def validate_opt_def
  validateBody_def getBodyValidationErrors_def payloads_def delivered_def call_next_def
  getProp_def sampleSchemas_def RequestValidationMiddlewareError_def BaseError_def

section \<open>Properties\<close>

subsection \<open>An error is passed on exactly when a section with a schema fails\<close>

text \<open>
  C2. For every request, a validator hands a \<open>MiddlewareError\<close> to the continuation if
  and only if a section that has a schema reports a failure on the request's value for
  that section, under the options the validator gives the engine. This holds of the five
  section validators and of the aggregate validator, in \<open>ValidatorBase.ts\<close> and in the
  class \<open>RequestValidator\<close>. On the right-hand side for the aggregate validators only
  sections with a schema occur: a section without one cannot contribute a failure.
\<close>

theorem error_iff_section_failure:
  "((\<exists>e. Some e \<in> set (delivered x (validatorFor s sch ov x)))
      = (error (sch (sectionOf (req x) s) (Some (spread commonValidatorOptions ov))) \<noteq> None))
   \<and> ((\<exists>e. Some e \<in> set (delivered x (RequestValidator_validatorFor this s sch ov x)))
      = (error (sch (sectionOf (req x) s) (Some (spread (commonValidationOptions this) ov))) \<noteq> None))
   \<and> ((\<exists>e. Some e \<in> set (delivered x (validateAll S ov x)))
      = (\<exists>s' sch'. schemaOf S s' = Some sch' \<and> error (sch' (sectionOf (req x) s') ov) \<noteq> None))
   \<and> ((\<exists>e. Some e \<in> set (delivered x (RequestValidator_validateAll this S ov x)))
      = (\<exists>s' sch'. schemaOf S s' = Some sch'
           \<and> error (sch' (sectionOf (req x) s') (Some (spread (commonValidationOptions this) ov))) \<noteq> None))"
proof -
  have agg: "(\<exists>e. Some e \<in> set [map_option f (getAllValidationErrors S r opts)])
      = (\<exists>s' sch'. schemaOf S s' = Some sch' \<and> error (sch' (sectionOf r s') opts) \<noteq> None)"
    for f :: "jsobject \<Rightarrow> MiddlewareError" and r opts
  proof -
    have "(\<exists>e. Some e \<in> set [map_option f (getAllValidationErrors S r opts)])
        = (getAllValidationErrors S r opts \<noteq> None)"
      by (cases "getAllValidationErrors S r opts") simp_all
    also have "\<dots> = (\<exists>s'. sectionError S opts r s' \<noteq> None)"
      by (simp add: getAllValidationErrors_None)
    also have "\<dots> = (\<exists>s' sch'. schemaOf S s' = Some sch' \<and> error (sch' (sectionOf r s') opts) \<noteq> None)"
      by (simp only: sectionError_Some)
    finally show ?thesis .
  qed
  have one: "(\<exists>e. Some e \<in> set [map_option f v]) = (v \<noteq> None)"
    for f :: "ValidationError \<Rightarrow> MiddlewareError" and v
    by (cases v) simp_all
  show ?thesis
    by (simp only: validatorFor_step RequestValidator_validatorFor_step validateAll_step
          RequestValidator_validateAll_step delivered_call_next agg one simp_thms)
qed


theorem error_iff_section_failure_witness:
  "(\<exists>e. Some e \<in> set (delivered (start emptyRequest)
       (validatorFor Body (requireKeys [''name'']) None (start emptyRequest))))
   \<and> (\<exists>e. Some e \<in> set (delivered (start emptyRequest)
       (validateAll (noSchemas\<lparr>body_schema := Some (requireKeys [''name''])\<rparr>) None
          (start emptyRequest))))
   \<and> \<not> (\<exists>e. Some e \<in> set (delivered (start emptyRequest)
       (validateAll (noSchemas\<lparr>body_schema := Some (requireKeys [])\<rparr>) None
          (start emptyRequest))))"
proof -
  let ?x = "start emptyRequest"
  let ?S = "noSchemas\<lparr>body_schema := Some (requireKeys [''name''])\<rparr>"
  let ?T = "noSchemas\<lparr>body_schema := Some (requireKeys [])\<rparr>"
  note inst = error_iff_section_failure
    [where x = ?x and s = Body and sch = "requireKeys [''name'']" and ov = None and S = ?S]
  note inst' = error_iff_section_failure [where x = ?x and ov = None and S = ?T]
  have single: "error (requireKeys [''name''] (sectionOf (req ?x) Body)
      (Some (spread commonValidatorOptions None))) \<noteq> None"
    by (simp add: requireKeys_def start_def emptyRequest_def hasOwn_def ownKeys_def Let_def)
  have "schemaOf ?S Body = Some (requireKeys [''name''])
      \<and> error (requireKeys [''name''] (sectionOf (req ?x) Body) None) \<noteq> None"
    by (simp add: requireKeys_def start_def emptyRequest_def hasOwn_def ownKeys_def
          noSchemas_def Let_def)
  then have agg: "\<exists>s' sch'. schemaOf ?S s' = Some sch'
      \<and> error (sch' (sectionOf (req ?x) s') None) \<noteq> None"
    by blast
  have none: "\<not> (\<exists>s' sch'. schemaOf ?T s' = Some sch'
      \<and> error (sch' (sectionOf (req ?x) s') None) \<noteq> None)"
  proof
    assume "\<exists>s' sch'. schemaOf ?T s' = Some sch'
      \<and> error (sch' (sectionOf (req ?x) s') None) \<noteq> None"
    then obtain s' sch' where h: "schemaOf ?T s' = Some sch'"
      "error (sch' (sectionOf (req ?x) s') None) \<noteq> None"
      by blast
    then show False
      by (cases s') (auto simp add: noSchemas_def requireKeys_def Let_def)
  qed
  from inst single agg inst' none show ?thesis
    by blast
qed

subsection \<open>A failing section's error is keyed by the section\<close>

text \<open>
  C3. For every request in which the schema given for section \<open>s\<close> reports the
  diagnostics \<open>d\<close> on the request's value for \<open>s\<close>, the validator for \<open>s\<close> calls the
  continuation once, with a \<open>MiddlewareError\<close> whose \<open>errors\<close> payload is the object
  with the one key \<open>s\<close>, holding \<open>d\<close>.
\<close>

theorem section_error_keyed_by_section:
  "(error (sch (sectionOf (req x) s) (Some (spread commonValidatorOptions ov))) = Some d
      \<longrightarrow> delivered x (validatorFor s sch ov x)
            = [Some (RequestValidationMiddlewareError (JObj [(sectionName s, JError d)]))]
          \<and> errors (RequestValidationMiddlewareError (JObj [(sectionName s, JError d)]))
            = JObj [(sectionName s, JError d)])
   \<and> (error (sch (sectionOf (req x) s) (Some (spread (commonValidationOptions this) ov))) = Some d
      \<longrightarrow> delivered x (RequestValidator_validatorFor this s sch ov x)
            = [Some (RequestValidationMiddlewareError (JObj [(sectionName s, JError d)]))]
          \<and> errors (RequestValidationMiddlewareError (JObj [(sectionName s, JError d)]))
            = JObj [(sectionName s, JError d)])"
  by (simp add: validatorFor_step RequestValidator_validatorFor_step delivered_call_next
        RequestValidationMiddlewareError_fields)

theorem section_error_keyed_by_section_witness:
  "delivered (start (emptyRequest\<lparr>query := JObj [(''extra'', JStr ''x'')]\<rparr>))
     (validatorFor Query (requireKeys [''page'']) None
        (start (emptyRequest\<lparr>query := JObj [(''extra'', JStr ''x'')]\<rparr>)))
   = [Some (RequestValidationMiddlewareError
        (JObj [(''query'', JError [Violation ''page'' ''is required''])]))]"
proof -
  let ?x = "start (emptyRequest\<lparr>query := JObj [(''extra'', JStr ''x'')]\<rparr>)"
  have h: "error (requireKeys [''page''] (sectionOf (req ?x) Query)
      (Some (spread commonValidatorOptions None))) = Some [Violation ''page'' ''is required'']"
    by (simp add: sample_defs)
  from section_error_keyed_by_section
    [where x = ?x and s = Query and sch = "requireKeys [''page'']" and ov = None
       and d = "[Violation ''page'' ''is required'']"] h
  show ?thesis by simp
qed

subsection \<open>The continuation is called exactly once\<close>

text \<open>
  C8. Whatever the engine reports, a step of any validator adds exactly one call of the
  continuation to those made before it: never none, never two.
\<close>

theorem continuation_called_exactly_once:
  "(\<exists>c. calls (validatorFor s sch ov x) = calls x @ [c])
   \<and> (\<exists>c. calls (RequestValidator_validatorFor this s sch ov x) = calls x @ [c])
   \<and> (\<exists>c. calls (validateAll S ov x) = calls x @ [c])
   \<and> (\<exists>c. calls (RequestValidator_validateAll this S ov x) = calls x @ [c])"
  by (simp add: validatorFor_step RequestValidator_validatorFor_step validateAll_step
        RequestValidator_validateAll_step calls_call_next)

theorem continuation_called_exactly_once_witness:
  "length (calls (validateAll (noSchemas\<lparr>body_schema := Some (requireKeys [''a''])\<rparr>) None
      (start emptyRequest))) = 1
   \<and> length (calls (validatorFor Body (requireKeys []) None (start emptyRequest))) = 1"
proof -
  let ?x = "start emptyRequest"
  note inst = continuation_called_exactly_once
    [where x = ?x and S = "noSchemas\<lparr>body_schema := Some (requireKeys [''a''])\<rparr>"
       and ov = None and s = Body and sch = "requireKeys []"
       and this = "RequestValidator_new None"]
  have "calls ?x = []" by (simp add: start_def)
  with inst show ?thesis by auto
qed

subsection \<open>The request is left as it was\<close>

text \<open>
  C9. No validator changes the request: after the step every section is what it was,
  also when the engine accepted the value by converting it. Only the \<open>error\<close> of the
  engine's answer is read; the converted value is dropped.
\<close>

theorem request_is_not_modified:
  "req (validatorFor s sch ov x) = req x
   \<and> req (RequestValidator_validatorFor this s sch ov x) = req x
   \<and> req (validateAll S ov x) = req x
   \<and> req (RequestValidator_validateAll this S ov x) = req x"
  by (simp add: validatorFor_step RequestValidator_validatorFor_step validateAll_step
        RequestValidator_validateAll_step req_call_next)

theorem request_is_not_modified_witness:
  "converted (toFive (JStr ''5'') (Some (spread commonValidatorOptions None))) \<noteq> JStr ''5''
   \<and> req (validatorFor Query toFive None (start (emptyRequest\<lparr>query := JStr ''5''\<rparr>)))
       = emptyRequest\<lparr>query := JStr ''5''\<rparr>
   \<and> delivered (start (emptyRequest\<lparr>query := JStr ''5''\<rparr>))
        (validatorFor Query toFive None (start (emptyRequest\<lparr>query := JStr ''5''\<rparr>))) = [None]"
proof -
  let ?x = "start (emptyRequest\<lparr>query := JStr ''5''\<rparr>)"
  note inst = request_is_not_modified [where x = ?x and s = Query and sch = toFive and ov = None
    and this = "RequestValidator_new None" and S = noSchemas]
  have "delivered ?x (validatorFor Query toFive None ?x) = [None]"
    by (simp only: validatorFor_step delivered_call_next) (simp add: toFive_def)
  moreover have "req ?x = emptyRequest\<lparr>query := JStr ''5''\<rparr>"
    by (simp add: start_def)
  moreover have "converted (toFive (JStr ''5'') (Some (spread commonValidatorOptions None))) \<noteq> JStr ''5''"
    by (simp add: toFive_def)
  ultimately show ?thesis using inst by simp
qed

subsection \<open>An empty schema set accepts every request\<close>

text \<open>
  C10. When no section has a schema, the aggregate validator calls the continuation
  without an error, for every request and every options override.
\<close>

theorem empty_schema_set_passes:
  "(\<forall>s. schemaOf S s = None) \<Longrightarrow>
     delivered x (validateAll S ov x) = [None]
     \<and> delivered x (RequestValidator_validateAll this S ov x) = [None]"
proof -
  assume h: "\<forall>s. schemaOf S s = None"
  then have "sectionError S opts r s = None" for opts r s
    by (simp add: sectionError_def validate_opt_def)
  then have "getAllValidationErrors S r opts = None" for opts r
    by (simp add: getAllValidationErrors_None)
  then show ?thesis
    by (simp add: validateAll_step RequestValidator_validateAll_step delivered_call_next)
qed

theorem empty_schema_set_passes_witness:
  "delivered (start (emptyRequest\<lparr>body := JStr ''anything''\<rparr>))
     (validateAll noSchemas None (start (emptyRequest\<lparr>body := JStr ''anything''\<rparr>))) = [None]"
proof -
  have h: "\<forall>s. schemaOf noSchemas s = None"
  proof
    fix s show "schemaOf noSchemas s = None"
      by (cases s) (simp_all add: noSchemas_def)
  qed
  from empty_schema_set_passes [OF h] show ?thesis by blast
qed

subsection \<open>Merging options\<close>

text \<open>
  C5. The options merger is the object spread of the baseline and the override, a total
  function: without an override the result is the baseline; every field the override has
  takes the override's value; every field it lacks keeps the baseline's. The baseline of
  \<open>ValidatorBase.ts\<close> and the default of the class are the record with the one field
  \<open>abortEarly: false\<close>, and the class's constructor merges its argument into it. The merged
  record is what the engine is given: each section validator of \<open>ValidatorBase.ts\<close> calls
  the schema with the spread of \<open>commonValidatorOptions\<close> and its override, and each method
  of the class, \<open>validateAll\<close> included, with the spread of the instance's common options
  and the call's override. The function \<open>validateAll\<close> of \<open>ValidatorBase.ts\<close> is the one validator that
  does not merge, and is not part of this statement.
\<close>

theorem options_merger_override_wins:
  "spread base None = base
   \<and> (\<forall>k v. ov k = Some v \<longrightarrow> spread base (Some ov) k = Some v)
   \<and> (\<forall>k. ov k = None \<longrightarrow> spread base (Some ov) k = base k)
   \<and> commonValidatorOptions ''abortEarly'' = Some (JBool False)
   \<and> dom commonValidatorOptions = {''abortEarly''}
   \<and> defaultValidationOptions (RequestValidator_new joi) = commonValidatorOptions
   \<and> commonValidationOptions (RequestValidator_new joi) = spread commonValidatorOptions joi
   \<and> delivered x (validatorFor s sch override x)
       = [map_option (\<lambda>d. RequestValidationMiddlewareError (JObj [(sectionName s, JError d)]))
            (error (sch (sectionOf (req x) s) (Some (spread commonValidatorOptions override))))]
   \<and> delivered x (RequestValidator_validatorFor (RequestValidator_new joi) s sch override x)
       = [map_option (\<lambda>d. RequestValidationMiddlewareError (JObj [(sectionName s, JError d)]))
            (error (sch (sectionOf (req x) s)
               (Some (spread (spread commonValidatorOptions joi) override))))]
   \<and> delivered x (RequestValidator_validateAll (RequestValidator_new joi) S override x)
       = [map_option (\<lambda>r. RequestValidationMiddlewareError (JObj r))
            (RequestValidator_getAllValidationErrors S (req x)
               (Some (spread (spread commonValidatorOptions joi) override)))]"
proof -
  have new: "commonValidationOptions (RequestValidator_new joi) = spread commonValidatorOptions joi"
    by (cases joi) (simp_all add: RequestValidator_new_def spread_def commonValidatorOptions_def Let_def)
  moreover have "defaultValidationOptions (RequestValidator_new joi) = commonValidatorOptions"
    by (simp add: RequestValidator_new_def commonValidatorOptions_def Let_def)
  moreover have "\<forall>k. ov k = None \<longrightarrow> spread base (Some ov) k = base k"
    by (simp add: spread_def map_add_def)
  moreover have "\<forall>k v. ov k = Some v \<longrightarrow> spread base (Some ov) k = Some v"
    by (simp add: spread_def)
  moreover have "spread base None = base"
    by (simp add: spread_def)
  moreover have "commonValidatorOptions ''abortEarly'' = Some (JBool False)"
    "dom commonValidatorOptions = {''abortEarly''}"
    by (simp_all add: commonValidatorOptions_def)
  moreover have "delivered x (validatorFor s sch override x)
       = [map_option (\<lambda>d. RequestValidationMiddlewareError (JObj [(sectionName s, JError d)]))
            (error (sch (sectionOf (req x) s) (Some (spread commonValidatorOptions override))))]"
    by (simp only: validatorFor_step delivered_call_next)
  moreover have "delivered x (RequestValidator_validatorFor (RequestValidator_new joi) s sch override x)
       = [map_option (\<lambda>d. RequestValidationMiddlewareError (JObj [(sectionName s, JError d)]))
            (error (sch (sectionOf (req x) s)
               (Some (spread (spread commonValidatorOptions joi) override))))]"
    by (simp only: RequestValidator_validatorFor_step delivered_call_next new)
  moreover have "delivered x (RequestValidator_validateAll (RequestValidator_new joi) S override x)
       = [map_option (\<lambda>r. RequestValidationMiddlewareError (JObj r))
            (RequestValidator_getAllValidationErrors S (req x)
               (Some (spread (spread commonValidatorOptions joi) override)))]"
    by (simp only: RequestValidator_validateAll_step delivered_call_next new
          RequestValidator_getAllValidationErrors_eq)
  ultimately show ?thesis
    by (simp only: simp_thms)
qed

theorem options_merger_override_wins_witness:
  "spread commonValidatorOptions (Some [''allowUnknown'' \<mapsto> JBool True]) ''allowUnknown''
     = Some (JBool True)
   \<and> spread commonValidatorOptions (Some [''allowUnknown'' \<mapsto> JBool True]) ''abortEarly''
     = Some (JBool False)
   \<and> spread commonValidatorOptions (Some [''abortEarly'' \<mapsto> JBool True]) ''abortEarly''
     = Some (JBool True)
   \<and> spread commonValidatorOptions None = commonValidatorOptions
   \<and> payloads (start emptyRequest)
       (validatorFor Body (requireKeys [''a'', ''b'']) None (start emptyRequest))
     = [Some (JObj [(''body'', JError [Violation ''a'' ''is required'', Violation ''b'' ''is required''])])]
   \<and> payloads (start emptyRequest)
       (validatorFor Body (requireKeys [''a'', ''b'']) (Some [''allowUnknown'' \<mapsto> JBool True])
          (start emptyRequest))
     = [Some (JObj [(''body'', JError [Violation ''a'' ''is required'', Violation ''b'' ''is required''])])]
   \<and> payloads (start emptyRequest)
       (validatorFor Body (requireKeys [''a'', ''b'']) (Some [''abortEarly'' \<mapsto> JBool True])
          (start emptyRequest))
     = [Some (JObj [(''body'', JError [Violation ''a'' ''is required''])])]"
proof -
  let ?x = "start emptyRequest"
  let ?sch = "requireKeys [''a'', ''b'']"
  note a = options_merger_override_wins
    [where base = commonValidatorOptions and ov = "[''allowUnknown'' \<mapsto> JBool True]"
       and joi = None and x = ?x and s = Body and sch = ?sch and S = noSchemas]
  note b = options_merger_override_wins
    [where base = commonValidatorOptions and ov = "[''abortEarly'' \<mapsto> JBool True]"
       and joi = None and x = ?x and s = Body and sch = ?sch and S = noSchemas]
  note a_none = a [where override = None, THEN conjunct1]
  note a_set = a [where override = None, THEN conjunct2, THEN conjunct1, rule_format]
  note a_unset = a [where override = None, THEN conjunct2, THEN conjunct2, THEN conjunct1, rule_format]
  note b_set = b [where override = None, THEN conjunct2, THEN conjunct1, rule_format]
  note run = options_merger_override_wins
    [where x = ?x and s = Body and sch = ?sch, THEN conjunct2, THEN conjunct2, THEN conjunct2,
     THEN conjunct2, THEN conjunct2, THEN conjunct2, THEN conjunct2, THEN conjunct1]
  have 1: "[''allowUnknown'' \<mapsto> JBool True] ''allowUnknown'' = Some (JBool True)" by simp
  have 2: "[''allowUnknown'' \<mapsto> JBool True] ''abortEarly'' = None" by simp
  have 3: "[''abortEarly'' \<mapsto> JBool True] ''abortEarly'' = Some (JBool True)" by simp
  have base: "commonValidatorOptions ''abortEarly'' = Some (JBool False)"
    by (simp add: commonValidatorOptions_def)
  have r1: "payloads ?x (validatorFor Body ?sch None ?x)
     = [Some (JObj [(''body'', JError [Violation ''a'' ''is required'', Violation ''b'' ''is required''])])]"
    unfolding payloads_def run [of None]
    by (simp add: sample_defs RequestValidationMiddlewareError_fields)
  have r2: "payloads ?x (validatorFor Body ?sch (Some [''allowUnknown'' \<mapsto> JBool True]) ?x)
     = [Some (JObj [(''body'', JError [Violation ''a'' ''is required'', Violation ''b'' ''is required''])])]"
    unfolding payloads_def run [of "Some [''allowUnknown'' \<mapsto> JBool True]"]
    by (simp add: sample_defs RequestValidationMiddlewareError_fields)
  have r3: "payloads ?x (validatorFor Body ?sch (Some [''abortEarly'' \<mapsto> JBool True]) ?x)
     = [Some (JObj [(''body'', JError [Violation ''a'' ''is required''])])]"
    unfolding payloads_def run [of "Some [''abortEarly'' \<mapsto> JBool True]"]
    by (simp add: sample_defs RequestValidationMiddlewareError_fields)
  show ?thesis
    using a_none a_set [OF 1] a_unset [OF 2] base b_set [OF 3] r1 r2 r3
    by (simp only: simp_thms)
qed

subsection \<open>The fixed fields of the error\<close>

text \<open>
  C6. A \<open>RequestValidationMiddlewareError\<close> has the category "validation", the message
  "Bad Request", the status code 400, and in \<open>errors\<close> the payload it was made from,
  unchanged. So has every error a validator hands to the continuation, whose \<open>errors\<close>
  is the object the validator built: for a section validator the object with the
  section's key holding what the schema reported, for an aggregate validator the object
  \<open>getAllValidationErrors\<close> returned. The category and the status code are the values the
  spec gives for \<open>ErrorSource.VALIDATION\<close> and \<open>HttpStatusCode.BAD_REQUEST\<close>.
\<close>

theorem middleware_error_fixed_fields:
  "category (RequestValidationMiddlewareError p) = ''validation''
   \<and> message (RequestValidationMiddlewareError p) = ''Bad Request''
   \<and> statusCode (RequestValidationMiddlewareError p) = JNum 400
   \<and> errors (RequestValidationMiddlewareError p) = p
   \<and> (Some e \<in> set (delivered x (validatorFor s sch ov x))
        \<longrightarrow> category e = ''validation'' \<and> message e = ''Bad Request'' \<and> statusCode e = JNum 400
          \<and> errors e = JObj [(sectionName s,
               of_error (error (sch (sectionOf (req x) s) (Some (spread commonValidatorOptions ov)))))])
   \<and> (Some e \<in> set (delivered x (RequestValidator_validatorFor this s sch ov x))
        \<longrightarrow> category e = ''validation'' \<and> message e = ''Bad Request'' \<and> statusCode e = JNum 400
          \<and> errors e = JObj [(sectionName s,
               of_error (error (sch (sectionOf (req x) s)
                 (Some (spread (commonValidationOptions this) ov)))))])
   \<and> (Some e \<in> set (delivered x (validateAll S ov x))
        \<longrightarrow> category e = ''validation'' \<and> message e = ''Bad Request'' \<and> statusCode e = JNum 400
          \<and> Some (errors e) = map_option JObj (getAllValidationErrors S (req x) ov))
   \<and> (Some e \<in> set (delivered x (RequestValidator_validateAll this S ov x))
        \<longrightarrow> category e = ''validation'' \<and> message e = ''Bad Request'' \<and> statusCode e = JNum 400
          \<and> Some (errors e) = map_option JObj
               (RequestValidator_getAllValidationErrors S (req x)
                  (Some (spread (commonValidationOptions this) ov))))"
proof -
  have made: "\<exists>d. v = Some d \<and> e = RequestValidationMiddlewareError (g d)"
    if "Some e \<in> set (delivered x (call_next (map_option (\<lambda>d. RequestValidationMiddlewareError (g d)) v) x))"
    for g :: "'a \<Rightarrow> jsval" and v
    using that unfolding delivered_call_next by (cases v) auto
  have one: "category e = ''validation'' \<and> message e = ''Bad Request'' \<and> statusCode e = JNum 400
      \<and> errors e = JObj [(sectionName s, of_error v)]"
    if "Some e \<in> set (delivered x (call_next
          (map_option (\<lambda>d. RequestValidationMiddlewareError (JObj [(sectionName s, JError d)])) v) x))"
    for v
  proof -
    from made [OF that] obtain d where "v = Some d"
      "e = RequestValidationMiddlewareError (JObj [(sectionName s, JError d)])"
      by blast
    then show ?thesis
      by (simp add: RequestValidationMiddlewareError_fields)
  qed
  have agg: "category e = ''validation'' \<and> message e = ''Bad Request'' \<and> statusCode e = JNum 400
      \<and> Some (errors e) = map_option JObj v"
    if "Some e \<in> set (delivered x (call_next
          (map_option (\<lambda>r. RequestValidationMiddlewareError (JObj r)) v) x))"
    for v
  proof -
    from made [OF that] obtain r where "v = Some r" "e = RequestValidationMiddlewareError (JObj r)"
      by blast
    then show ?thesis
      by (simp add: RequestValidationMiddlewareError_fields)
  qed
  show ?thesis
    unfolding validatorFor_step RequestValidator_validatorFor_step validateAll_step
      RequestValidator_validateAll_step RequestValidator_getAllValidationErrors_eq
    using one agg
    by (simp add: RequestValidationMiddlewareError_fields)
qed

theorem middleware_error_fixed_fields_witness:
  "delivered (start emptyRequest) (validatorFor Body (requireKeys [''name'']) None (start emptyRequest))
     = [Some \<lparr>category = ''validation'', message = ''Bad Request'', statusCode = JNum 400,
          errors = JObj [(''body'', JError [Violation ''name'' ''is required''])]\<rparr>]
   \<and> delivered (start emptyRequest) (validateAll sampleSchemas None (start emptyRequest))
     = [Some \<lparr>category = ''validation'', message = ''Bad Request'', statusCode = JNum 400,
          errors = JObj [(''body'', JError [Violation ''a'' ''is required'']),
            (''cookies'', JError [Violation ''c'' ''is required'']),
            (''headers'', JUndefined), (''params'', JUndefined), (''query'', JUndefined)]\<rparr>]"
proof -
  let ?x = "start emptyRequest"
  let ?sch = "requireKeys [''name'']"
  obtain e where d: "delivered ?x (validatorFor Body ?sch None ?x) = [Some e]"
    by (simp only: validatorFor_step delivered_call_next) (simp add: sample_defs)
  obtain f where g: "delivered ?x (validateAll sampleSchemas None ?x) = [Some f]"
    by (simp add: run_defs sample_defs)
  note inst = middleware_error_fixed_fields
    [where x = ?x and s = Body and sch = ?sch and ov = None and S = sampleSchemas]
  have raw: "error (?sch (sectionOf (req ?x) Body) (Some (spread commonValidatorOptions None)))
      = Some [Violation ''name'' ''is required'']"
    by (simp add: sample_defs)
  have all: "getAllValidationErrors sampleSchemas (req ?x) None
      = Some [(''body'', JError [Violation ''a'' ''is required'']),
            (''cookies'', JError [Violation ''c'' ''is required'']),
            (''headers'', JUndefined), (''params'', JUndefined), (''query'', JUndefined)]"
    by (simp add: getAllValidationErrors_def validate_opt_def getProp_def sampleSchemas_def
          sample_defs)
  from d have "Some e \<in> set (delivered ?x (validatorFor Body ?sch None ?x))"
    by simp
  with inst [where e = e] raw
  have "category e = ''validation'' \<and> message e = ''Bad Request'' \<and> statusCode e = JNum 400
      \<and> errors e = JObj [(''body'', JError [Violation ''name'' ''is required''])]"
    by simp
  then have e: "e = \<lparr>category = ''validation'', message = ''Bad Request'', statusCode = JNum 400,
          errors = JObj [(''body'', JError [Violation ''name'' ''is required''])]\<rparr>"
    by (cases e) simp
  from g have "Some f \<in> set (delivered ?x (validateAll sampleSchemas None ?x))"
    by simp
  with inst [where e = f] all
  have "category f = ''validation'' \<and> message f = ''Bad Request'' \<and> statusCode f = JNum 400
      \<and> errors f = JObj [(''body'', JError [Violation ''a'' ''is required'']),
            (''cookies'', JError [Violation ''c'' ''is required'']),
            (''headers'', JUndefined), (''params'', JUndefined), (''query'', JUndefined)]"
    by simp
  then have f: "f = \<lparr>category = ''validation'', message = ''Bad Request'', statusCode = JNum 400,
          errors = JObj [(''body'', JError [Violation ''a'' ''is required'']),
            (''cookies'', JError [Violation ''c'' ''is required'']),
            (''headers'', JUndefined), (''params'', JUndefined), (''query'', JUndefined)]\<rparr>"
    by (cases f) simp
  from d g e f show ?thesis by simp
qed

subsection \<open>The entries of the aggregate error\<close>

text \<open>
  C4, as the code has it. When sections \<open>a\<close> and \<open>b\<close> fail, the aggregate validator's
  error payload holds the diagnostics of \<open>a\<close> under \<open>a\<close>'s name and those of \<open>b\<close> under
  \<open>b\<close>'s name; under the name of every section \<open>c\<close> that has a schema and passes it holds
  \<open>undefined\<close>; and so it does under the name of every section \<open>d\<close> that has no schema.
  A section without a schema is not absent from the payload: its key is there, as a
  passing section's is, with the value \<open>undefined\<close>.
\<close>

theorem aggregate_error_entries:
  "(schemaOf S a = Some sa \<and> error (sa (sectionOf (req x) a) ov) = Some da
      \<and> schemaOf S b = Some sb \<and> error (sb (sectionOf (req x) b) ov) = Some db
    \<longrightarrow> (\<exists>p. payloads x (validateAll S ov x) = [Some (JObj p)]
          \<and> getProp p (sectionName a) = JError da \<and> getProp p (sectionName b) = JError db
          \<and> (\<forall>c sc. schemaOf S c = Some sc \<and> error (sc (sectionOf (req x) c) ov) = None
               \<longrightarrow> getProp p (sectionName c) = JUndefined \<and> hasOwn (JObj p) (sectionName c))
          \<and> (\<forall>d. schemaOf S d = None
               \<longrightarrow> getProp p (sectionName d) = JUndefined \<and> hasOwn (JObj p) (sectionName d))))
   \<and> (schemaOf S a = Some sa
      \<and> error (sa (sectionOf (req x) a) (Some (spread (commonValidationOptions this) ov))) = Some da
      \<and> schemaOf S b = Some sb
      \<and> error (sb (sectionOf (req x) b) (Some (spread (commonValidationOptions this) ov))) = Some db
    \<longrightarrow> (\<exists>p. payloads x (RequestValidator_validateAll this S ov x) = [Some (JObj p)]
          \<and> getProp p (sectionName a) = JError da \<and> getProp p (sectionName b) = JError db
          \<and> (\<forall>c sc. schemaOf S c = Some sc
                 \<and> error (sc (sectionOf (req x) c) (Some (spread (commonValidationOptions this) ov))) = None
               \<longrightarrow> getProp p (sectionName c) = JUndefined \<and> hasOwn (JObj p) (sectionName c))
          \<and> (\<forall>d. schemaOf S d = None
               \<longrightarrow> getProp p (sectionName d) = JUndefined \<and> hasOwn (JObj p) (sectionName d))))"
proof (intro conjI impI)
  assume h: "schemaOf S a = Some sa \<and> error (sa (sectionOf (req x) a) ov) = Some da
      \<and> schemaOf S b = Some sb \<and> error (sb (sectionOf (req x) b) ov) = Some db"
  then obtain p where p: "getAllValidationErrors S (req x) ov = Some p"
    and entries: "getProp p (sectionName a) = JError da \<and> getProp p (sectionName b) = JError db
       \<and> (\<forall>c sc. schemaOf S c = Some sc \<and> error (sc (sectionOf (req x) c) ov) = None
            \<longrightarrow> getProp p (sectionName c) = JUndefined \<and> hasOwn (JObj p) (sectionName c))
       \<and> (\<forall>d. schemaOf S d = None
            \<longrightarrow> getProp p (sectionName d) = JUndefined \<and> hasOwn (JObj p) (sectionName d))"
    using aggregate_entries_of [of S a sa "req x" ov da b sb db] by blast
  have "payloads x (validateAll S ov x) = [Some (JObj p)]"
    by (simp add: validateAll_step payloads_call_next p RequestValidationMiddlewareError_fields)
  with entries show "\<exists>p. payloads x (validateAll S ov x) = [Some (JObj p)]
          \<and> getProp p (sectionName a) = JError da \<and> getProp p (sectionName b) = JError db
          \<and> (\<forall>c sc. schemaOf S c = Some sc \<and> error (sc (sectionOf (req x) c) ov) = None
               \<longrightarrow> getProp p (sectionName c) = JUndefined \<and> hasOwn (JObj p) (sectionName c))
          \<and> (\<forall>d. schemaOf S d = None
               \<longrightarrow> getProp p (sectionName d) = JUndefined \<and> hasOwn (JObj p) (sectionName d))"
    by (intro exI [of _ p] conjI) simp_all
next
  let ?o = "Some (spread (commonValidationOptions this) ov)"
  assume h: "schemaOf S a = Some sa \<and> error (sa (sectionOf (req x) a) ?o) = Some da
      \<and> schemaOf S b = Some sb \<and> error (sb (sectionOf (req x) b) ?o) = Some db"
  then obtain p where p: "getAllValidationErrors S (req x) ?o = Some p"
    and entries: "getProp p (sectionName a) = JError da \<and> getProp p (sectionName b) = JError db
       \<and> (\<forall>c sc. schemaOf S c = Some sc \<and> error (sc (sectionOf (req x) c) ?o) = None
            \<longrightarrow> getProp p (sectionName c) = JUndefined \<and> hasOwn (JObj p) (sectionName c))
       \<and> (\<forall>d. schemaOf S d = None
            \<longrightarrow> getProp p (sectionName d) = JUndefined \<and> hasOwn (JObj p) (sectionName d))"
    using aggregate_entries_of [of S a sa "req x" ?o da b sb db] by blast
  have "payloads x (RequestValidator_validateAll this S ov x) = [Some (JObj p)]"
    by (simp add: RequestValidator_validateAll_step payloads_call_next p
          RequestValidationMiddlewareError_fields)
  with entries show "\<exists>p. payloads x (RequestValidator_validateAll this S ov x) = [Some (JObj p)]
          \<and> getProp p (sectionName a) = JError da \<and> getProp p (sectionName b) = JError db
          \<and> (\<forall>c sc. schemaOf S c = Some sc \<and> error (sc (sectionOf (req x) c) ?o) = None
               \<longrightarrow> getProp p (sectionName c) = JUndefined \<and> hasOwn (JObj p) (sectionName c))
          \<and> (\<forall>d. schemaOf S d = None
               \<longrightarrow> getProp p (sectionName d) = JUndefined \<and> hasOwn (JObj p) (sectionName d))"
    by (intro exI [of _ p] conjI) simp_all
qed

theorem aggregate_error_entries_witness:
  "\<exists>p. payloads (start emptyRequest) (validateAll sampleSchemas None (start emptyRequest))
         = [Some (JObj p)]
       \<and> getProp p ''body'' = JError [Violation ''a'' ''is required'']
       \<and> getProp p ''cookies'' = JError [Violation ''c'' ''is required'']
       \<and> getProp p ''headers'' = JUndefined \<and> hasOwn (JObj p) ''headers''
       \<and> getProp p ''params'' = JUndefined \<and> hasOwn (JObj p) ''params''
       \<and> getProp p ''query'' = JUndefined \<and> hasOwn (JObj p) ''query''"
proof -
  let ?x = "start emptyRequest"
  have h: "schemaOf sampleSchemas Body = Some (requireKeys [''a'', ''b''])
      \<and> error (requireKeys [''a'', ''b''] (sectionOf (req ?x) Body) None)
          = Some [Violation ''a'' ''is required'']
      \<and> schemaOf sampleSchemas Cookies = Some (requireKeys [''c''])
      \<and> error (requireKeys [''c''] (sectionOf (req ?x) Cookies) None)
          = Some [Violation ''c'' ''is required'']"
    by (simp add: sampleSchemas_def sample_defs)
  have c: "schemaOf sampleSchemas Headers = Some (requireKeys [])
      \<and> error (requireKeys [] (sectionOf (req ?x) Headers) None) = None"
    by (simp add: sampleSchemas_def sample_defs)
  have d: "schemaOf sampleSchemas Params = None" "schemaOf sampleSchemas Query = None"
    by (simp_all add: sampleSchemas_def)
  from aggregate_error_entries
    [where S = sampleSchemas and x = ?x and ov = None and a = Body and b = Cookies,
     THEN conjunct1, rule_format, OF h]
  obtain p where p: "payloads ?x (validateAll sampleSchemas None ?x) = [Some (JObj p)]"
    and ab: "getProp p (sectionName Body) = JError [Violation ''a'' ''is required'']"
      "getProp p (sectionName Cookies) = JError [Violation ''c'' ''is required'']"
    and pass: "\<And>c sc. schemaOf sampleSchemas c = Some sc
        \<and> error (sc (sectionOf (req ?x) c) None) = None
        \<Longrightarrow> getProp p (sectionName c) = JUndefined \<and> hasOwn (JObj p) (sectionName c)"
    and none: "\<And>d. schemaOf sampleSchemas d = None
        \<Longrightarrow> getProp p (sectionName d) = JUndefined \<and> hasOwn (JObj p) (sectionName d)"
    by blast
  from pass [OF c] none [OF d(1)] none [OF d(2)] ab p
  show ?thesis
    by (intro exI [of _ p]) simp
qed

text \<open>
  The payload built for \<open>sampleSchemas\<close> owns all five keys, \<open>params\<close> and \<open>query\<close>
  among them, though the schema set has no schema for either: the object literal of
  \<open>getAllValidationErrors\<close> always writes the five properties.
\<close>

theorem aggregate_absent_section_counterexample:
  "schemaOf sampleSchemas Query = None
   \<and> schemaOf sampleSchemas Params = None
   \<and> map (map_option ownKeys)
       (payloads (start emptyRequest) (validateAll sampleSchemas None (start emptyRequest)))
     = [Some [''body'', ''cookies'', ''headers'', ''params'', ''query'']]"
  by (simp add: run_defs sample_defs)

subsection \<open>The options the aggregate validator gives the engine\<close>

text \<open>
  C1. Called without an options override, \<open>validateAll\<close> of \<open>ValidatorBase.ts\<close> gives
  every schema undefined options, not the baseline \<open>abortEarly: false\<close>: the engine's own
  default applies and a body lacking two required keys yields one diagnostic entry. The
  method \<open>validateAll\<close> of the class \<open>RequestValidator\<close> and the section validator
  \<open>validateBody\<close> of \<open>ValidatorBase.ts\<close> do merge the baseline, and yield both entries on
  the same request.
\<close>

theorem validateAll_omits_baseline_options:
  "payloads (start emptyRequest) (validateAll sampleSchemas None (start emptyRequest))
     = [Some (JObj [(''body'', JError [Violation ''a'' ''is required'']),
          (''cookies'', JError [Violation ''c'' ''is required'']),
          (''headers'', JUndefined), (''params'', JUndefined), (''query'', JUndefined)])]
   \<and> payloads (start emptyRequest)
       (RequestValidator_validateAll (RequestValidator_new None) sampleSchemas None
          (start emptyRequest))
     = [Some (JObj [(''body'', JError [Violation ''a'' ''is required'', Violation ''b'' ''is required'']),
          (''cookies'', JError [Violation ''c'' ''is required'']),
          (''headers'', JUndefined), (''params'', JUndefined), (''query'', JUndefined)])]
   \<and> payloads (start emptyRequest)
       (validateBody (requireKeys [''a'', ''b'']) None (start emptyRequest))
     = [Some (JObj [(''body'', JError [Violation ''a'' ''is required'', Violation ''b'' ''is required''])])]"
  by (simp add: run_defs sample_defs)

subsection \<open>The shape of the payload\<close>

text \<open>
  C7, as the code has it. The \<open>errors\<close> field of a section validator's error is an object
  with one key, the section's name, holding that section's raw diagnostics; the
  \<open>errors\<close> field of the aggregate validator's error is an object with the five section
  names as keys, each holding the section's diagnostics or \<open>undefined\<close>.
\<close>

theorem errors_payload_shapes:
  "(error (sch (sectionOf (req x) s) (Some (spread commonValidatorOptions ov))) = Some d
      \<longrightarrow> payloads x (validatorFor s sch ov x) = [Some (JObj [(sectionName s, JError d)])])
   \<and> (error (sch (sectionOf (req x) s) (Some (spread (commonValidationOptions this) ov))) = Some d
      \<longrightarrow> payloads x (RequestValidator_validatorFor this s sch ov x)
            = [Some (JObj [(sectionName s, JError d)])])
   \<and> (Some p \<in> set (payloads x (validateAll S ov x))
      \<longrightarrow> p = JObj [(''body'', of_error (sectionError S ov (req x) Body)),
                   (''cookies'', of_error (sectionError S ov (req x) Cookies)),
                   (''headers'', of_error (sectionError S ov (req x) Headers)),
                   (''params'', of_error (sectionError S ov (req x) Params)),
                   (''query'', of_error (sectionError S ov (req x) Query))])
   \<and> (Some p \<in> set (payloads x (RequestValidator_validateAll this S ov x))
      \<longrightarrow> p = JObj
           [(''body'', of_error (sectionError S (Some (spread (commonValidationOptions this) ov)) (req x) Body)),
            (''cookies'', of_error (sectionError S (Some (spread (commonValidationOptions this) ov)) (req x) Cookies)),
            (''headers'', of_error (sectionError S (Some (spread (commonValidationOptions this) ov)) (req x) Headers)),
            (''params'', of_error (sectionError S (Some (spread (commonValidationOptions this) ov)) (req x) Params)),
            (''query'', of_error (sectionError S (Some (spread (commonValidationOptions this) ov)) (req x) Query))])"
proof -
  have agg: "p = JObj [(''body'', of_error (sectionError S opts r Body)),
                   (''cookies'', of_error (sectionError S opts r Cookies)),
                   (''headers'', of_error (sectionError S opts r Headers)),
                   (''params'', of_error (sectionError S opts r Params)),
                   (''query'', of_error (sectionError S opts r Query))]"
    if "Some p \<in> set [map_option errors (map_option (\<lambda>r. RequestValidationMiddlewareError (JObj r))
          (getAllValidationErrors S r opts))]" for r opts
  proof (cases "getAllValidationErrors S r opts")
    case None
    with that show ?thesis by simp
  next
    case (Some q)
    then have "q = map (\<lambda>s. (sectionName s, of_error (sectionError S opts r s))) allSections"
      by (simp add: getAllValidationErrors_eq split: if_splits)
    with that Some show ?thesis
      by (simp add: RequestValidationMiddlewareError_fields allSections_def)
  qed
  show ?thesis
    using agg [of "req x" ov] agg [of "req x" "Some (spread (commonValidationOptions this) ov)"]
    by (simp add: validatorFor_step RequestValidator_validatorFor_step validateAll_step
          RequestValidator_validateAll_step payloads_call_next
          RequestValidationMiddlewareError_fields)
qed

theorem errors_payload_shapes_witness:
  "payloads (start emptyRequest) (validatorFor Body (requireKeys [''name'']) None (start emptyRequest))
     = [Some (JObj [(''body'', JError [Violation ''name'' ''is required''])])]"
proof -
  let ?x = "start emptyRequest"
  have h: "error (requireKeys [''name''] (sectionOf (req ?x) Body)
      (Some (spread commonValidatorOptions None))) = Some [Violation ''name'' ''is required'']"
    by (simp add: sample_defs)
  from errors_payload_shapes
    [where x = ?x and s = Body and sch = "requireKeys [''name'']" and ov = None
       and d = "[Violation ''name'' ''is required'']", THEN conjunct1, rule_format, OF h]
  show ?thesis by simp
qed

text \<open>
  The payload of \<open>validateBody\<close> is not the section's raw diagnostics themselves: they
  are wrapped in an object keyed by the section.
\<close>

theorem single_section_payload_counterexample:
  "error (requireKeys [''name''] (body emptyRequest) (Some (spread commonValidatorOptions None)))
     = Some [Violation ''name'' ''is required'']
   \<and> payloads (start emptyRequest) (validateBody (requireKeys [''name'']) None (start emptyRequest))
     \<noteq> [Some (JError [Violation ''name'' ''is required''])]"
  by (simp add: run_defs sample_defs)

end
